theory Spec2Isabelle
  imports Complex_Main
begin

section \<open>Values carried by the transport\<close>

text \<open>
  Both callbacks start with \<^verbatim>\<open>json.loads(msg.payload.decode())\<close>. The value this call
  returns is a Python object built from JSON; \<open>pyval\<close> is the type of these objects.
  \<open>PNum r\<close> is a finite number (a float or an int) with exact value \<open>r\<close>; \<open>PNaN\<close>,
  \<open>PInf\<close> and \<open>PNegInf\<close> are the three non-finite floats that \<^verbatim>\<open>json.loads\<close> accepts.
  A payload is modelled by the outcome of the call: \<open>None\<close> when \<^verbatim>\<open>decode\<close> or
  \<^verbatim>\<open>json.loads\<close> raises, \<open>Some v\<close> when it returns \<open>v\<close>.
\<close>

datatype pyval =
    PNone
  | PBool bool
  | PNum real
  | PNaN
  | PInf
  | PNegInf
  | PStr string
  | PList "pyval list"
  | PDict "(string \<times> pyval) list"

datatype py_error =
    DecodeError
  | AttributeError
  | TypeError
  | ValueError
  | OverflowError
  | PredictError

text \<open>\<^verbatim>\<open>data.get(key)\<close> on a dict: the stored value, or \<^verbatim>\<open>None\<close> when the key is absent.\<close>

definition dict_get :: "(string \<times> pyval) list \<Rightarrow> string \<Rightarrow> pyval" where
  "dict_get d k = (case map_of d k of None \<Rightarrow> PNone | Some v \<Rightarrow> v)"

text \<open>
  Ordering a Python object against a float raises \<^verbatim>\<open>TypeError\<close> unless the object is a
  number (\<^verbatim>\<open>bool\<close> is a subclass of \<^verbatim>\<open>int\<close>); every comparison with NaN is false.
\<close>

fun is_number :: "pyval \<Rightarrow> bool" where
  "is_number (PBool b) = True"
| "is_number (PNum x) = True"
| "is_number PNaN = True"
| "is_number PInf = True"
| "is_number PNegInf = True"
| "is_number v = False"

fun py_gt :: "pyval \<Rightarrow> real \<Rightarrow> bool" where
  "py_gt (PNum x) t = (x > t)"
| "py_gt (PBool b) t = ((if b then 1 else 0) > t)"
| "py_gt PInf t = True"
| "py_gt v t = False"

fun py_lt :: "pyval \<Rightarrow> real \<Rightarrow> bool" where
  "py_lt (PNum x) t = (x < t)"
| "py_lt (PBool b) t = ((if b then 1 else 0) < t)"
| "py_lt PNegInf t = True"
| "py_lt v t = False"

section \<open>Broker\_Forecasting\_Temperature\_file.py\<close>

definition lookback :: nat where
  "lookback = 10"

definition number_of_future_forecasts :: nat where
  "number_of_future_forecasts = 10"

text \<open>
  \<^verbatim>\<open>deque(maxlen=n).append(x)\<close>: the element is added on the right and, when the deque
  is then longer than \<open>maxlen\<close>, one element is removed on the left.
\<close>

definition deque_append :: "nat \<Rightarrow> 'a list \<Rightarrow> 'a \<Rightarrow> 'a list" where
  "deque_append maxlen d x =
     (let d' = d @ [x] in if length d' > maxlen then tl d' else d')"

text \<open>\<^verbatim>\<open>list(d)[-n:]\<close> for a positive \<open>n\<close>: the last \<open>n\<close> elements, all of them when fewer.\<close>

definition last_n :: "nat \<Rightarrow> 'a list \<Rightarrow> 'a list" where
  "last_n n xs = drop (length xs - n) xs"

text \<open>
  The scaler is a fitted \<^verbatim>\<open>MinMaxScaler\<close> over one feature: \<open>transform\<close> maps each entry
  of the column on its own (\<open>None\<close> when the entry is rejected and the call raises), and
  \<open>inverse_transform\<close> maps each entry back. \<^verbatim>\<open>model.predict\<close> is a function from the
  input window to one value (\<open>None\<close> when it raises). The type \<open>'x\<close> is the type of the
  floats the scaler and the model compute with; it is left open, so that it has room for
  NaN, which the scaler gives for an entry \<^verbatim>\<open>None\<close>.
\<close>

record 'x scaler =
  transform :: "pyval \<Rightarrow> 'x option"
  inverse_transform :: "'x \<Rightarrow> 'x"

text \<open>
  The loop of \<^verbatim>\<open>predict_with_loaded_model\<close>, with the number of iterations left as its
  last argument; \<^verbatim>\<open>last_input[:, 1:, :]\<close> is \<open>drop 1\<close>.
\<close>

fun forecast_loop ::
  "('x list \<Rightarrow> 'x option) \<Rightarrow> 'x list \<Rightarrow> nat \<Rightarrow> py_error + 'x list" where
  "forecast_loop model last_input 0 = Inr []"
| "forecast_loop model last_input (Suc n) =
     (case model last_input of
        None \<Rightarrow> Inl PredictError
      | Some future_prediction \<Rightarrow>
          (case forecast_loop model (drop 1 last_input @ [future_prediction]) n of
             Inl e \<Rightarrow> Inl e
           | Inr rest \<Rightarrow> Inr (future_prediction # rest)))"

text \<open>
  \<^verbatim>\<open>scaler.transform\<close> rejects an empty column, and \<^verbatim>\<open>reshape(1, lookback, 1)\<close> raises
  unless the column has exactly \<open>lookback\<close> entries.
\<close>

definition predict_with_loaded_model ::
  "('x list \<Rightarrow> 'x option) \<Rightarrow> 'x scaler \<Rightarrow> pyval list \<Rightarrow> nat \<Rightarrow> py_error + 'x list" where
  "predict_with_loaded_model model sc new_data lb =
     (if new_data = [] then Inl ValueError
      else
        (case those (map (transform sc) new_data) of
           None \<Rightarrow> Inl ValueError
         | Some scaled_new_data \<Rightarrow>
             if length scaled_new_data \<noteq> lb then Inl ValueError
             else
               (case forecast_loop model scaled_new_data number_of_future_forecasts of
                  Inl e \<Rightarrow> Inl e
                | Inr future_forecasts \<Rightarrow>
                    Inr (map (inverse_transform sc) future_forecasts))))"

text \<open>
  A \<^verbatim>\<open>datetime\<close> is the number of microseconds of its wall-clock fields since
  0001-01-01T00:00:00, between 0 and \<open>datetime_max\<close> (9999-12-31T23:59:59.999999).
  Adding a \<^verbatim>\<open>timedelta\<close> is exact integer arithmetic on that count and raises
  \<^verbatim>\<open>OverflowError\<close> outside the range; an attached time zone is carried along unchanged.
\<close>

type_synonym datetime = int

definition datetime_max :: int where
  "datetime_max = 315537897599999999"

definition timedelta_days :: "int \<Rightarrow> int" where
  "timedelta_days d = d * 86400000000"

definition datetime_add :: "datetime \<Rightarrow> int \<Rightarrow> py_error + datetime" where
  "datetime_add t delta =
     (let r = t + delta in
      if 0 \<le> r \<and> r \<le> datetime_max then Inr r else Inl OverflowError)"

text \<open>
  The loop \<^verbatim>\<open>for i in range(1, number_of_future_forecasts+1)\<close> over the list of its
  indices; \<open>isoformat\<close> is \<^verbatim>\<open>datetime.isoformat\<close>.
\<close>

fun future_timestamps_loop ::
  "(datetime \<Rightarrow> string) \<Rightarrow> datetime \<Rightarrow> nat list \<Rightarrow> py_error + string list" where
  "future_timestamps_loop isoformat last_datetime [] = Inr []"
| "future_timestamps_loop isoformat last_datetime (i # rest) =
     (case datetime_add last_datetime (timedelta_days (int i)) of
        Inl e \<Rightarrow> Inl e
      | Inr future_date \<Rightarrow>
          (case future_timestamps_loop isoformat last_datetime rest of
             Inl e \<Rightarrow> Inl e
           | Inr future_timestamps \<Rightarrow> Inr (isoformat future_date # future_timestamps)))"

definition generate_future_timestamps ::
  "(datetime \<Rightarrow> string) \<Rightarrow> datetime \<Rightarrow> py_error + string list" where
  "generate_future_timestamps isoformat last_datetime =
     future_timestamps_loop isoformat last_datetime [1 ..< number_of_future_forecasts + 1]"

text \<open>\<^verbatim>\<open>last_timestamp.replace('Z', '+00:00')\<close>\<close>

definition replace_Z :: "string \<Rightarrow> string" where
  "replace_Z s = concat (map (\<lambda>c. if c = CHR ''Z'' then ''+00:00'' else [c]) s)"

text \<open>
  The objects the module loads or imports: the model, the scaler, the two
  \<^verbatim>\<open>datetime\<close> conversions (\<open>fromisoformat\<close> is \<open>None\<close> when the string is rejected), and
  \<^verbatim>\<open>np.array\<close>. An array is modelled by the list of its entries, which is also what
  \<^verbatim>\<open>tolist\<close> gives back: \<open>np_array\<close> converts every entry of its argument to the common
  type of the array (\<^verbatim>\<open>True\<close> beside floats becomes \<^verbatim>\<open>1.0\<close>) and is \<open>None\<close> when
  \<^verbatim>\<open>np.array\<close> raises.
\<close>

record 'x components =
  model :: "'x list \<Rightarrow> 'x option"
  scaler_of :: "'x scaler"
  fromisoformat :: "string \<Rightarrow> datetime option"
  isoformat :: "datetime \<Rightarrow> string"
  np_array :: "pyval list \<Rightarrow> pyval list option"

record 'x forecast_message =
  msg_sensor_id :: int
  msg_sensor_timestamp :: "pyval list"
  msg_sensor_data :: "pyval list"
  msg_future_timestamps :: "string list"
  msg_forecasts :: "'x list"

record broker_state =
  temperatures :: "pyval list"
  timestamps :: "pyval list"

datatype 'x outcome =
    Published "'x forecast_message"
  | NotEnoughData
  | ErrorPrinted py_error

text \<open>
  The branch of \<^verbatim>\<open>on_message\<close> taken once the window is full, in the order of the
  source: the array of the last \<open>lookback\<close> temperatures is built first, then the future
  timestamps, then the forecasts. A last timestamp that is not a string is used as it is,
  and adding a \<^verbatim>\<open>timedelta\<close> to it raises \<^verbatim>\<open>TypeError\<close> (no JSON value is a
  \<^verbatim>\<open>datetime\<close>). The message carries \<^verbatim>\<open>reordered_temperature_data.tolist()\<close>, the entries
  of the array.
\<close>

definition build_forecast ::
  "'x components \<Rightarrow> broker_state \<Rightarrow> py_error + 'x forecast_message" where
  "build_forecast c st =
     (case np_array c (last_n lookback (temperatures st)) of
        None \<Rightarrow> Inl ValueError
      | Some reordered_temperature_data \<Rightarrow>
          (let reordered_timestamp_data = last_n lookback (timestamps st);
               last_timestamp = last reordered_timestamp_data
           in
             (case (case last_timestamp of
                      PStr s \<Rightarrow>
                        (case fromisoformat c (replace_Z s) of
                           None \<Rightarrow> Inl ValueError
                         | Some last_datetime \<Rightarrow>
                             generate_future_timestamps (isoformat c) last_datetime)
                    | _ \<Rightarrow> Inl TypeError) of
                Inl e \<Rightarrow> Inl e
              | Inr future_timestamps \<Rightarrow>
                  (case predict_with_loaded_model (model c) (scaler_of c)
                          reordered_temperature_data lookback of
                     Inl e \<Rightarrow> Inl e
                   | Inr forecasts \<Rightarrow>
                       Inr \<lparr> msg_sensor_id = 1,
                             msg_sensor_timestamp = reordered_timestamp_data,
                             msg_sensor_data = reordered_temperature_data,
                             msg_future_timestamps = future_timestamps,
                             msg_forecasts = forecasts \<rparr>))))"

text \<open>
  \<^verbatim>\<open>on_message\<close>: the new state of the two deques and what the callback did. Every
  exception is caught by the handler and printed. \<^verbatim>\<open>data.get\<close> raises
  \<^verbatim>\<open>AttributeError\<close> when the decoded value is not a dict. The two appends come before
  anything that can raise after decoding, so they stay when a later step fails.
\<close>

definition on_message ::
  "'x components \<Rightarrow> broker_state \<Rightarrow> pyval option \<Rightarrow> broker_state \<times> 'x outcome" where
  "on_message c st payload =
     (case payload of
        None \<Rightarrow> (st, ErrorPrinted DecodeError)
      | Some (PDict d) \<Rightarrow>
          (let temp = dict_get d ''temperature'';
               ts = dict_get d ''timestamp'';
               st' = \<lparr> temperatures = deque_append lookback (temperatures st) temp,
                       timestamps = deque_append lookback (timestamps st) ts \<rparr>
           in if length (temperatures st') \<ge> lookback
              then (case build_forecast c st' of
                      Inl e \<Rightarrow> (st', ErrorPrinted e)
                    | Inr message \<Rightarrow> (st', Published message))
              else (st', NotEnoughData))
      | Some _ \<Rightarrow> (st, ErrorPrinted AttributeError))"

text \<open>A run of the callback over the payloads of a stream, in arrival order.\<close>

fun run_messages ::
  "'x components \<Rightarrow> broker_state \<Rightarrow> pyval option list \<Rightarrow> broker_state" where
  "run_messages c st [] = st"
| "run_messages c st (p # ps) = run_messages c (fst (on_message c st p)) ps"

definition initial_broker_state :: broker_state where
  "initial_broker_state = \<lparr> temperatures = [], timestamps = [] \<rparr>"

text \<open>
  The forecaster in the words of its description: the working buffer before step \<open>i + 1\<close>
  for a predictor that always returns. It starts as the input window; each step drops
  the oldest entry and appends the prediction made from the buffer.
\<close>

fun buffer_at :: "('a list \<Rightarrow> 'a) \<Rightarrow> 'a list \<Rightarrow> nat \<Rightarrow> 'a list" where
  "buffer_at predictOne window 0 = window"
| "buffer_at predictOne window (Suc i) =
     drop 1 (buffer_at predictOne window i) @ [predictOne (buffer_at predictOne window i)]"

section \<open>Second\_IoT\_Screen.py\<close>

text \<open>
  \<^verbatim>\<open>check_thresholds\<close> reads the four module constants. They are gathered in a record,
  so that the function can also be read at other values of the constants.
\<close>

record thresholds =
  low_warning :: real
  low_error :: real
  high_warning :: real
  high_error :: real

definition LOW_WARNING_THRESHOLD :: real where
  "LOW_WARNING_THRESHOLD = 18.0"

definition LOW_ERROR_THRESHOLD :: real where
  "LOW_ERROR_THRESHOLD = 10.0"

definition HIGH_WARNING_THRESHOLD :: real where
  "HIGH_WARNING_THRESHOLD = 25.0"

definition HIGH_ERROR_THRESHOLD :: real where
  "HIGH_ERROR_THRESHOLD = 30.0"

definition module_thresholds :: thresholds where
  "module_thresholds =
     \<lparr> low_warning = LOW_WARNING_THRESHOLD, low_error = LOW_ERROR_THRESHOLD,
       high_warning = HIGH_WARNING_THRESHOLD, high_error = HIGH_ERROR_THRESHOLD \<rparr>"

definition thresholds_ordered :: "thresholds \<Rightarrow> bool" where
  "thresholds_ordered th \<longleftrightarrow>
     low_error th < low_warning th \<and> low_warning th < high_warning th \<and>
     high_warning th < high_error th"

text \<open>
  The two conversions of a number to text inside the f-strings: \<open>fmt_2f\<close> is the text
  \<^verbatim>\<open>{value:.2f}\<close> gives when it returns, and \<open>fmt_float\<close> is \<^verbatim>\<open>{THRESHOLD}\<close>, the
  \<^verbatim>\<open>str\<close> of a float, which always returns.
\<close>

record formatter =
  fmt_2f :: "pyval \<Rightarrow> string"
  fmt_float :: "real \<Rightarrow> string"

text \<open>
  \<^verbatim>\<open>{value:.2f}\<close> first converts an int to a float, and the conversion raises
  \<^verbatim>\<open>OverflowError\<close> when the int, rounded to the nearest float, is out of range: when its
  magnitude reaches \<open>2 ^ 1024 - 2 ^ 970\<close>, half a step above the largest float. A finite
  float is below this bound, so a number that reaches it is an int (JSON has ints of any
  size). Floats, also the non-finite ones, and \<^verbatim>\<open>bool\<close> are always formatted.
\<close>

definition float_limit :: real where
  "float_limit = 2 ^ 1024 - 2 ^ 970"

fun overflows_float :: "pyval \<Rightarrow> bool" where
  "overflows_float (PNum x) = (\<bar>x\<bar> \<ge> float_limit)"
| "overflows_float v = False"

text \<open>The text that follows each number in the messages, as the bytes of the source file.\<close>

definition unit_suffix :: string where
  "unit_suffix = [CHR 0xC2, CHR 0xAC, CHR 0xE2, CHR 0x88, CHR 0x9E, CHR ''C'']"

definition violation_text ::
  "formatter \<Rightarrow> string \<Rightarrow> pyval \<Rightarrow> string \<Rightarrow> real \<Rightarrow> string" where
  "violation_text f value_type v cmp t =
     value_type @ '': '' @ fmt_2f f v @ unit_suffix @ '' '' @ cmp @ '' '' @
     fmt_float f t @ unit_suffix"

text \<open>
  The evaluation of one of the four f-strings: \<open>None\<close> when formatting the value raises.
\<close>

definition format_violation ::
  "formatter \<Rightarrow> string \<Rightarrow> pyval \<Rightarrow> string \<Rightarrow> real \<Rightarrow> string option" where
  "format_violation f value_type v cmp t =
     (if overflows_float v then None else Some (violation_text f value_type v cmp t))"

text \<open>\<^verbatim>\<open>str\<close> of a non-negative int.\<close>

definition digit_char :: "nat \<Rightarrow> char" where
  "digit_char d = ''0123456789'' ! d"

function str_nat :: "nat \<Rightarrow> string" where
  "str_nat n =
     (if n < 10 then [digit_char n]
      else str_nat (n div 10) @ [digit_char (n mod 10)])"
  by pat_completeness auto
termination
  by (relation "measure id") auto

declare str_nat.simps [simp del]

definition more_text :: "nat \<Rightarrow> string" where
  "more_text n = ''... and '' @ str_nat n @ '' more violations''"

record plot_data =
  sensor_data :: "pyval list"
  sensor_timestamps :: "datetime list"
  forecasts :: "pyval list"
  future_timestamps :: "datetime list"
  sensor_id :: pyval

definition initial_plot_data :: plot_data where
  "initial_plot_data =
     \<lparr> sensor_data = [], sensor_timestamps = [], forecasts = [],
       future_timestamps = [], sensor_id = PNone \<rparr>"

text \<open>The list \<^verbatim>\<open>values_to_check\<close>: the last sensor value, then every forecast value.\<close>

definition values_to_check :: "plot_data \<Rightarrow> (string \<times> pyval) list" where
  "values_to_check pd =
     (if sensor_data pd \<noteq> [] then [(''Current Sensor'', last (sensor_data pd))] else []) @
     (if forecasts pd \<noteq> []
      then map (\<lambda>forecast_value. (''Forecast'', forecast_value)) (forecasts pd)
      else [])"

text \<open>
  The loop over \<^verbatim>\<open>values_to_check\<close>, with the two lists it fills as accumulators. The
  result is \<open>None\<close> when the loop raises: the first comparison raises \<^verbatim>\<open>TypeError\<close> on
  a value that is not a number, and the f-string of a branch raises \<^verbatim>\<open>OverflowError\<close> on
  an int that no float can hold. A value that passes all four comparisons is never
  formatted.
\<close>

fun violations_loop ::
  "thresholds \<Rightarrow> formatter \<Rightarrow> (string \<times> pyval) list \<Rightarrow> string list \<Rightarrow> string list \<Rightarrow>
     (string list \<times> string list) option" where
  "violations_loop th f [] error_violations warning_violations =
     Some (error_violations, warning_violations)"
| "violations_loop th f ((value_type, v) # rest) error_violations warning_violations =
     (if \<not> is_number v then None
      else if py_gt v (high_error th) then
        (case format_violation f value_type v ''>'' (high_error th) of
           None \<Rightarrow> None
         | Some entry \<Rightarrow>
             violations_loop th f rest (error_violations @ [entry]) warning_violations)
      else if py_lt v (low_error th) then
        (case format_violation f value_type v ''<'' (low_error th) of
           None \<Rightarrow> None
         | Some entry \<Rightarrow>
             violations_loop th f rest (error_violations @ [entry]) warning_violations)
      else if py_gt v (high_warning th) then
        (case format_violation f value_type v ''>'' (high_warning th) of
           None \<Rightarrow> None
         | Some entry \<Rightarrow>
             violations_loop th f rest error_violations (warning_violations @ [entry]))
      else if py_lt v (low_warning th) then
        (case format_violation f value_type v ''<'' (low_warning th) of
           None \<Rightarrow> None
         | Some entry \<Rightarrow>
             violations_loop th f rest error_violations (warning_violations @ [entry]))
      else violations_loop th f rest error_violations warning_violations)"

definition shown_violations :: "string list \<Rightarrow> string list" where
  "shown_violations violations =
     take 3 violations @
     (if length violations > 3 then [more_text (length violations - 3)] else [])"

text \<open>
  \<^verbatim>\<open>check_thresholds\<close> at given values of the constants. The handler of the function
  catches every exception and returns \<^verbatim>\<open>('normal', [])\<close>.
\<close>

definition check_thresholds_with ::
  "thresholds \<Rightarrow> formatter \<Rightarrow> plot_data \<Rightarrow> string \<times> string list" where
  "check_thresholds_with th f pd =
     (if values_to_check pd = [] then (''normal'', [])
      else
        (case violations_loop th f (values_to_check pd) [] [] of
           None \<Rightarrow> (''normal'', [])
         | Some (error_violations, warning_violations) \<Rightarrow>
             if error_violations \<noteq> [] then
               (''error'', [''ERROR THRESHOLD EXCEEDED!''] @ shown_violations error_violations)
             else if warning_violations \<noteq> [] then
               (''warning'',
                [''WARNING THRESHOLD EXCEEDED!''] @ shown_violations warning_violations)
             else (''normal'', [])))"

definition check_thresholds :: "formatter \<Rightarrow> plot_data \<Rightarrow> string \<times> string list" where
  "check_thresholds = check_thresholds_with module_thresholds"


definition value_severity :: "thresholds \<Rightarrow> pyval \<Rightarrow> string" where
  "value_severity th v =
     (if py_gt v (high_error th) \<or> py_lt v (low_error th) then ''error''
      else if py_gt v (high_warning th) \<or> py_lt v (low_warning th) then ''warning''
      else ''normal'')"


text \<open>
  The part of the plotter that the alert methods read and write: the stored background
  colour, the face colours of figure and axes, and the alert text artist.
\<close>

record plotter =
  current_background_color :: string
  fig_facecolor :: string
  ax_facecolor :: string
  alert_text_text :: string
  alert_text_color :: string
  alert_text_bbox_facecolor :: string
  alert_text_visible :: bool

definition color_map :: "(string \<times> string) list" where
  "color_map = [(''normal'', ''white''), (''warning'', ''#FFFACD''), (''error'', ''#FFB6C1'')]"

definition update_background_color :: "plotter \<Rightarrow> string \<Rightarrow> plotter" where
  "update_background_color p alert_status =
     (let new_color = (case map_of color_map alert_status of None \<Rightarrow> ''white'' | Some c \<Rightarrow> c)
      in if new_color \<noteq> current_background_color p
         then p\<lparr> fig_facecolor := new_color, ax_facecolor := new_color,
                 current_background_color := new_color \<rparr>
         else p)"

text \<open>\<^verbatim>\<open>'\n'.join(alert_messages)\<close>\<close>

fun join_lines :: "string list \<Rightarrow> string" where
  "join_lines [] = []"
| "join_lines [m] = m"
| "join_lines (m # m' # ms) = m @ [CHR 0x0A] @ join_lines (m' # ms)"

definition update_alert_text :: "plotter \<Rightarrow> string \<Rightarrow> string list \<Rightarrow> plotter" where
  "update_alert_text p alert_status alert_messages =
     (if alert_messages \<noteq> [] then
        p\<lparr> alert_text_text := join_lines alert_messages,
           alert_text_color := (if alert_status = ''error'' then ''red'' else ''orange''),
           alert_text_bbox_facecolor :=
             (if alert_status = ''error'' then ''#FFE4E1'' else ''#FFF8DC''),
           alert_text_visible := True \<rparr>
      else p\<lparr> alert_text_visible := False \<rparr>)"

text \<open>
  The two calls that \<^verbatim>\<open>update_plot\<close> makes with the result of \<^verbatim>\<open>check_thresholds\<close>.
\<close>

definition update_alerts :: "plotter \<Rightarrow> string \<times> string list \<Rightarrow> plotter" where
  "update_alerts p assessment =
     (case assessment of (alert_status, alert_messages) \<Rightarrow>
        update_alert_text (update_background_color p alert_status) alert_status alert_messages)"

text \<open>
  The two tiers of the classifier in the words of its description: an Error-level breach,
  a Warning-level breach (only for a value with no Error-level breach), and the entry
  listed for an observation in either tier.
\<close>

definition error_breach :: "thresholds \<Rightarrow> pyval \<Rightarrow> bool" where
  "error_breach th v \<longleftrightarrow> py_gt v (high_error th) \<or> py_lt v (low_error th)"

definition warning_breach :: "thresholds \<Rightarrow> pyval \<Rightarrow> bool" where
  "warning_breach th v \<longleftrightarrow>
     \<not> error_breach th v \<and> (py_gt v (high_warning th) \<or> py_lt v (low_warning th))"

definition error_entry :: "thresholds \<Rightarrow> formatter \<Rightarrow> string \<times> pyval \<Rightarrow> string" where
  "error_entry th f ob = (case ob of (value_type, v) \<Rightarrow>
     if py_gt v (high_error th) then violation_text f value_type v ''>'' (high_error th)
     else violation_text f value_type v ''<'' (low_error th))"

definition warning_entry :: "thresholds \<Rightarrow> formatter \<Rightarrow> string \<times> pyval \<Rightarrow> string" where
  "warning_entry th f ob = (case ob of (value_type, v) \<Rightarrow>
     if py_gt v (high_warning th) then violation_text f value_type v ''>'' (high_warning th)
     else violation_text f value_type v ''<'' (low_warning th))"

text \<open>
  An observation in the words of the description is a float: among the values of
  \<open>pyval\<close>, a number that a float can hold.
\<close>

definition float_valued :: "pyval \<Rightarrow> bool" where
  "float_valued v \<longleftrightarrow> is_number v \<and> \<not> overflows_float v"

text \<open>
  What the two conversions give on non-negative whole numbers, for worked examples.
\<close>

definition whole_formatter :: formatter where
  "whole_formatter =
     \<lparr> fmt_2f = (\<lambda>v. case v of PNum x \<Rightarrow> str_nat (nat \<lfloor>x\<rfloor>) @ ''.00'' | _ \<Rightarrow> ''?''),
       fmt_float = (\<lambda>t. str_nat (nat \<lfloor>t\<rfloor>) @ ''.0'') \<rparr>"

text \<open>
  The alert state after \<^verbatim>\<open>__init__\<close>: the stored colour and the face colour of the text
  box are set to white there, the alert text is empty; the fields the constructor leaves
  alone are at the defaults of the plotting library (white faces, black text, a visible
  artist).
\<close>

definition initial_plotter :: plotter where
  "initial_plotter =
     \<lparr> current_background_color = ''white'',
       fig_facecolor = ''white'',
       ax_facecolor = ''white'',
       alert_text_text = '''',
       alert_text_color = ''black'',
       alert_text_bbox_facecolor = ''white'',
       alert_text_visible = True \<rparr>"

text \<open>The colour that \<^verbatim>\<open>update_background_color\<close> looks up for a status.\<close>

definition status_color :: "string \<Rightarrow> string" where
  "status_color alert_status =
     (case map_of color_map alert_status of None \<Rightarrow> ''white'' | Some c \<Rightarrow> c)"

section \<open>mqtt\_listener.py\<close>

text \<open>
  The plotting script subscribes to the same topic and keeps the readings in two deques
  of its own. Its callback appends only when the temperature is not \<^verbatim>\<open>None\<close>; the
  timestamp falls back to the length of the deque when it is missing or empty
  (\<^verbatim>\<open>ts if ts else len(temperatures)\<close>). What it draws is left out.
\<close>

definition listener_N :: nat where
  "listener_N = 100"

fun py_truthy :: "pyval \<Rightarrow> bool" where
  "py_truthy PNone = False"
| "py_truthy (PBool b) = b"
| "py_truthy (PNum x) = (x \<noteq> 0)"
| "py_truthy PNaN = True"
| "py_truthy PInf = True"
| "py_truthy PNegInf = True"
| "py_truthy (PStr s) = (s \<noteq> [])"
| "py_truthy (PList l) = (l \<noteq> [])"
| "py_truthy (PDict d) = (d \<noteq> [])"

record listener_state =
  listener_temperatures :: "pyval list"
  listener_timestamps :: "pyval list"

definition initial_listener_state :: listener_state where
  "initial_listener_state = \<lparr> listener_temperatures = [], listener_timestamps = [] \<rparr>"

definition listener_on_message :: "listener_state \<Rightarrow> pyval option \<Rightarrow> listener_state" where
  "listener_on_message st payload =
     (case payload of
        None \<Rightarrow> st
      | Some (PDict d) \<Rightarrow>
          (let temp = dict_get d ''temperature'';
               ts = dict_get d ''timestamp''
           in if temp \<noteq> PNone then
                (let temperatures' = deque_append listener_N (listener_temperatures st) temp
                 in \<lparr> listener_temperatures = temperatures',
                      listener_timestamps =
                        deque_append listener_N (listener_timestamps st)
                          (if py_truthy ts then ts else PNum (real (length temperatures'))) \<rparr>)
              else st)
      | Some _ \<Rightarrow> st)"

section \<open>The sliding window\<close>

lemma last_n_length: "length (last_n n xs) = min (length xs) n"
  by (simp add: last_n_def)

lemma deque_append_last_n:
  assumes "length d \<le> n"
  shows "deque_append n d x = last_n n (d @ [x])"
proof (cases "length d = n")
  case True
  then show ?thesis
    by (cases d) (auto simp: deque_append_def last_n_def Let_def)
next
  case False
  with assms have "Suc (length d) - n = 0" by simp
  with False assms show ?thesis
    by (simp add: deque_append_def last_n_def Let_def)
qed

lemma last_n_snoc: "last_n n (last_n n xs @ [x]) = last_n n (xs @ [x])"
proof (cases "n \<le> length xs")
  case True
  then have "Suc (length xs) - n = Suc (length xs - n)" by simp
  moreover from True have "length xs - (length xs - n) = n" by simp
  ultimately show ?thesis using True
    by (simp add: last_n_def)
next
  case False
  then show ?thesis by (simp add: last_n_def)
qed

lemma deque_append_full:
  "length d = n \<Longrightarrow> 0 < n \<Longrightarrow> deque_append n d x = tl d @ [x]"
  by (cases d) (auto simp: deque_append_def Let_def)

lemma on_message_dict_state:
  "fst (on_message c st (Some (PDict d))) =
     \<lparr> temperatures = deque_append lookback (temperatures st) (dict_get d ''temperature''),
       timestamps = deque_append lookback (timestamps st) (dict_get d ''timestamp'') \<rparr>"
  by (simp add: on_message_def Let_def split: sum.splits)

lemma run_messages_dicts:
  "temperatures st = last_n lookback ys \<Longrightarrow>
   temperatures (run_messages c st (map (\<lambda>d. Some (PDict d)) ds)) =
     last_n lookback (ys @ map (\<lambda>d. dict_get d ''temperature'') ds)"
proof (induction ds arbitrary: st ys)
  case Nil
  then show ?case by simp
next
  case (Cons d ds)
  have "temperatures (fst (on_message c st (Some (PDict d)))) =
          last_n lookback (ys @ [dict_get d ''temperature''])"
    using Cons.prems
    by (simp add: on_message_dict_state deque_append_last_n last_n_length last_n_snoc)
  from Cons.IH [OF this] show ?case by simp
qed

lemma on_message_dict_timestamps:
  "timestamps (fst (on_message c st (Some (PDict d)))) =
     deque_append lookback (timestamps st) (dict_get d ''timestamp'')"
  by (simp add: on_message_dict_state)

lemma run_messages_dicts_ts:
  "timestamps st = last_n lookback ys \<Longrightarrow>
   timestamps (run_messages c st (map (\<lambda>d. Some (PDict d)) ds)) =
     last_n lookback (ys @ map (\<lambda>d. dict_get d ''timestamp'') ds)"
proof (induction ds arbitrary: st ys)
  case Nil
  then show ?case by simp
next
  case (Cons d ds)
  have "timestamps (fst (on_message c st (Some (PDict d)))) =
          last_n lookback (ys @ [dict_get d ''timestamp''])"
    using Cons.prems
    by (simp add: on_message_dict_state deque_append_last_n last_n_length last_n_snoc)
  from Cons.IH [OF this] show ?case by simp
qed

text \<open>
  Claim C2. After any sequence of readings has been appended for the sensor, the window
  holds exactly the last \<open>min N L\<close> of them in arrival order, for the temperatures and
  for the timestamps; it is never longer than \<open>L\<close>; an append to a window of length
  \<open>L\<close> removes its oldest entry; and \<open>L = 10\<close>. The statement holds for every sequence,
  hence after each append of a longer one.
\<close>

theorem window_holds_last_readings:
  "temperatures (run_messages c initial_broker_state (map (\<lambda>d. Some (PDict d)) ds)) =
     last_n lookback (map (\<lambda>d. dict_get d ''temperature'') ds) \<and>
   timestamps (run_messages c initial_broker_state (map (\<lambda>d. Some (PDict d)) ds)) =
     last_n lookback (map (\<lambda>d. dict_get d ''timestamp'') ds) \<and>
   length (temperatures (run_messages c initial_broker_state (map (\<lambda>d. Some (PDict d)) ds))) =
     min (length ds) lookback \<and>
   length (temperatures (run_messages c initial_broker_state (map (\<lambda>d. Some (PDict d)) ds)))
     \<le> lookback \<and>
   (length w = lookback \<longrightarrow> deque_append lookback w x = tl w @ [x]) \<and>
   lookback = 10"
proof -
  let ?st = "run_messages c initial_broker_state (map (\<lambda>d. Some (PDict d)) ds)"
  have t: "temperatures ?st = last_n lookback (map (\<lambda>d. dict_get d ''temperature'') ds)"
    using run_messages_dicts [of initial_broker_state "[]" c ds]
    by (simp add: initial_broker_state_def last_n_def)
  have s: "timestamps ?st = last_n lookback (map (\<lambda>d. dict_get d ''timestamp'') ds)"
    using run_messages_dicts_ts [of initial_broker_state "[]" c ds]
    by (simp add: initial_broker_state_def last_n_def)
  have l: "length (temperatures ?st) = min (length ds) lookback"
    by (simp only: t last_n_length length_map)
  have e: "length w = lookback \<longrightarrow> deque_append lookback w x = tl w @ [x]"
    using deque_append_full [of w lookback x] by (simp add: lookback_def)
  from t s l e show ?thesis by (simp add: lookback_def)
qed

theorem window_holds_last_readings_witness:
  "length [1, 2, 3, 4, 5, 6, 7, 8, 9, 10 :: nat] = lookback \<and>
   deque_append lookback [1, 2, 3, 4, 5, 6, 7, 8, 9, 10 :: nat] 11 =
     [2, 3, 4, 5, 6, 7, 8, 9, 10, 11]"
proof -
  have l: "length [1, 2, 3, 4, 5, 6, 7, 8, 9, 10 :: nat] = lookback"
    by (simp add: lookback_def)
  have "length [1, 2, 3, 4, 5, 6, 7, 8, 9, 10 :: nat] = lookback \<longrightarrow>
        deque_append lookback [1, 2, 3, 4, 5, 6, 7, 8, 9, 10 :: nat] 11 =
          tl [1, 2, 3, 4, 5, 6, 7, 8, 9, 10] @ [11]"
    using window_holds_last_readings
            [of _ "[]" "[1, 2, 3, 4, 5, 6, 7, 8, 9, 10 :: nat]" 11]
    by blast
  with l show ?thesis by simp
qed

section \<open>The rolling forecast\<close>

lemma those_total: "those (map (\<lambda>v. Some (t v)) xs) = Some (map t xs)"
  by (induction xs) simp_all

lemma buffer_at_shift:
  "buffer_at p w (Suc i) = buffer_at p (drop 1 w @ [p w]) i"
  by (induction i) simp_all

lemma buffer_at_length: "w \<noteq> [] \<Longrightarrow> length (buffer_at p w i) = length w"
proof (induction i)
  case 0
  then show ?case by simp
next
  case (Suc i)
  then have "buffer_at p w i \<noteq> []" by auto
  with Suc show ?case by (cases "buffer_at p w i") simp_all
qed

lemma forecast_loop_total:
  "forecast_loop (\<lambda>b. Some (p b)) buf n = Inr (map (\<lambda>i. p (buffer_at p buf i)) [0..<n])"
proof (induction n arbitrary: buf)
  case 0
  then show ?case by simp
next
  case (Suc n)
  have "map (\<lambda>i. p (buffer_at p buf i)) [0..<Suc n] =
          p buf # map (\<lambda>i. p (buffer_at p (drop 1 buf @ [p buf]) i)) [0..<n]"
    unfolding map_upt_Suc buffer_at_shift by simp
  with Suc.IH [of "drop 1 buf @ [p buf]"] show ?case by simp
qed

lemma last_n_append_length:
  "last_n (length w) (w @ ps) = drop (length ps) (w @ ps)"
proof -
  have "length (w @ ps) - length w = length ps" by simp
  then show ?thesis unfolding last_n_def by (simp only:)
qed

lemma buffer_at_window:
  "w \<noteq> [] \<Longrightarrow> buffer_at p w i = last_n (length w) (w @ map (\<lambda>j. p (buffer_at p w j)) [0..<i])"
proof (induction i)
  case 0
  then show ?case by (simp add: last_n_def)
next
  case (Suc i)
  let ?ps = "map (\<lambda>j. p (buffer_at p w j)) [0..<i]"
  let ?x = "p (buffer_at p w i)"
  have ps: "length ?ps = i" by simp
  have "buffer_at p w (Suc i) = drop 1 (drop i (w @ ?ps)) @ [?x]"
    using Suc.IH [OF Suc.prems] last_n_append_length [of w ?ps]
    by (simp only: buffer_at.simps ps)
  also have "drop 1 (drop i (w @ ?ps)) = drop (Suc i) (w @ ?ps)"
    by (simp only: drop_drop) simp
  also have "drop (Suc i) (w @ ?ps) @ [?x] = drop (Suc i) ((w @ ?ps) @ [?x])"
    using Suc.prems by (subst drop_append [of "Suc i" "w @ ?ps"]) (simp add: Suc_le_eq)
  also have "(w @ ?ps) @ [?x] = w @ map (\<lambda>j. p (buffer_at p w j)) [0..<Suc i]"
    by simp
  also have "drop (Suc i) \<dots> = last_n (length w) \<dots>"
    using last_n_append_length [of w "map (\<lambda>j. p (buffer_at p w j)) [0..<Suc i]"]
    by (simp only: length_map length_upt) simp
  finally show ?case .
qed

text \<open>
  Claim C1. On a window of exactly \<open>L\<close> values and with a predictor that always returns,
  the forecast succeeds with exactly \<open>H\<close> values. The \<open>i\<close>-th value is the prediction made
  from the buffer \<open>buffer_at \<dots> i\<close>, which starts as the (scaled) input window and at
  each step drops its oldest entry and appends that prediction. The buffer keeps length
  \<open>L\<close>, and it always consists of the last \<open>L\<close> entries of the input window followed by
  the predictions made so far: no other value enters it.
\<close>

theorem rolling_forecast_feeds_back:
  assumes "length w = lb" and "0 < lb"
  shows
    "predict_with_loaded_model (\<lambda>b. Some (p b))
        \<lparr> transform = (\<lambda>v. Some (t v)), inverse_transform = u \<rparr> w lb =
       Inr (map (\<lambda>i. u (p (buffer_at p (map t w) i))) [0..<number_of_future_forecasts]) \<and>
     length (map (\<lambda>i. u (p (buffer_at p (map t w) i))) [0..<number_of_future_forecasts]) =
       number_of_future_forecasts \<and>
     buffer_at p (map t w) 0 = map t w \<and>
     (\<forall>i. buffer_at p (map t w) (Suc i) =
            drop 1 (buffer_at p (map t w) i) @ [p (buffer_at p (map t w) i)]) \<and>
     (\<forall>i. length (buffer_at p (map t w) i) = lb) \<and>
     (\<forall>i. buffer_at p (map t w) i =
            last_n lb (map t w @ map (\<lambda>j. p (buffer_at p (map t w) j)) [0..<i]))"
proof -
  from assms have ne: "map t w \<noteq> []" by auto
  have len: "length (map t w) = lb" using assms by simp
  have run: "predict_with_loaded_model (\<lambda>b. Some (p b))
        \<lparr> transform = (\<lambda>v. Some (t v)), inverse_transform = u \<rparr> w lb =
       Inr (map (\<lambda>i. u (p (buffer_at p (map t w) i))) [0..<number_of_future_forecasts])"
    using ne assms
    by (simp add: predict_with_loaded_model_def those_total forecast_loop_total comp_def)
  have cnt: "length (map (\<lambda>i. u (p (buffer_at p (map t w) i)))
               [0..<number_of_future_forecasts]) = number_of_future_forecasts"
    by simp
  have b0: "buffer_at p (map t w) 0 = map t w"
    by simp
  have bs: "\<forall>i. buffer_at p (map t w) (Suc i) =
            drop 1 (buffer_at p (map t w) i) @ [p (buffer_at p (map t w) i)]"
    by simp
  have bl: "\<forall>i. length (buffer_at p (map t w) i) = lb"
    using buffer_at_length [OF ne, of p, unfolded len] by (rule allI)
  have bw: "\<forall>i. buffer_at p (map t w) i =
            last_n lb (map t w @ map (\<lambda>j. p (buffer_at p (map t w) j)) [0..<i])"
    using buffer_at_window [OF ne, of p, unfolded len] by (rule allI)
  show ?thesis
    by (intro conjI) (rule run cnt b0 bs bl bw)+
qed

lemma upt_10: "[0..<10] = [0, 1, 2, 3, 4, 5, 6, 7, 8, 9]"
  by code_simp

theorem rolling_forecast_feeds_back_witness:
  "length (replicate 10 (PNum 20)) = (10::nat) \<and> (0::nat) < 10 \<and>
   predict_with_loaded_model (\<lambda>b. Some (last b + 1))
       \<lparr> transform = (\<lambda>v. Some (case v of PNum x \<Rightarrow> x | _ \<Rightarrow> 0)),
         inverse_transform = (\<lambda>y. y) \<rparr>
       (replicate 10 (PNum 20)) 10 =
     Inr [21, 22, 23, 24, 25, 26, 27, 28, 29, 30]"
proof -
  have r: "replicate 10 (PNum 20) =
     [PNum 20, PNum 20, PNum 20, PNum 20, PNum 20, PNum 20, PNum 20, PNum 20, PNum 20, PNum 20]"
    by (simp add: numeral_eq_Suc)
  have n: "\<And>i. (9::nat) = Suc i \<Longrightarrow> i = 8" by simp
  have "predict_with_loaded_model (\<lambda>b. Some (last b + 1))
       \<lparr> transform = (\<lambda>v. Some (case v of PNum x \<Rightarrow> x | _ \<Rightarrow> 0)),
         inverse_transform = (\<lambda>y. y) \<rparr>
       (replicate 10 (PNum 20)) 10 =
     Inr (map (\<lambda>i. (last (buffer_at (\<lambda>b. last b + 1)
            (map (\<lambda>v. case v of PNum x \<Rightarrow> x | _ \<Rightarrow> 0) (replicate 10 (PNum 20))) i) + 1))
          [0..<number_of_future_forecasts])"
    using rolling_forecast_feeds_back
          [of "replicate 10 (PNum 20)" 10 "\<lambda>b. last b + 1"
              "\<lambda>v. case v of PNum x \<Rightarrow> x | _ \<Rightarrow> 0" "\<lambda>y. y", THEN conjunct1]
    by simp
  then show ?thesis
    unfolding r number_of_future_forecasts_def upt_10
    by (simp add: eval_nat_numeral)
qed

section \<open>Future timestamps\<close>

lemma future_timestamps_loop_in_range:
  "\<forall>i \<in> set is. 0 \<le> T + timedelta_days (int i) \<and> T + timedelta_days (int i) \<le> datetime_max \<Longrightarrow>
   future_timestamps_loop fmt T is = Inr (map (\<lambda>i. fmt (T + timedelta_days (int i))) is)"
  by (induction "is") (simp_all add: datetime_add_def Let_def)

lemma future_timestamps_loop_result:
  "future_timestamps_loop fmt T is = Inr fts \<Longrightarrow>
   fts = map (\<lambda>i. fmt (T + timedelta_days (int i))) is"
proof (induction "is" arbitrary: fts)
  case Nil
  then show ?case by simp
next
  case (Cons i "is")
  then show ?case
    by (auto simp: datetime_add_def Let_def split: sum.splits if_splits)
qed

lemma future_timestamps_loop_overflow:
  "i \<in> set is \<Longrightarrow> datetime_max < T + timedelta_days (int i) \<Longrightarrow>
   future_timestamps_loop fmt T is = Inl OverflowError"
proof (induction "is")
  case Nil
  then show ?case by simp
next
  case (Cons j "is")
  then show ?case
    by (auto simp: datetime_add_def Let_def split: sum.splits if_splits)
qed

lemma timedelta_days_mono: "a \<le> b \<Longrightarrow> timedelta_days a \<le> timedelta_days b"
  by (simp add: timedelta_days_def)

lemma instants_increasing:
  "sorted_wrt (<) (map (\<lambda>i. T + timedelta_days (int i)) [1..<n])"
  by (simp add: sorted_wrt_map sorted_wrt_upt timedelta_days_def sorted_wrt_iff_nth_less)

text \<open>
  Claim C4. With \<open>T\<close> the last timestamp of the window and \<open>D\<close> one day, the \<open>i\<close>-th
  future timestamp is the rendering of \<open>T + i * D\<close>, each computed from \<open>T\<close> itself. When
  \<open>T + H * D\<close> is a representable \<^verbatim>\<open>datetime\<close> the loop succeeds with that list, and
  whenever the loop returns a list it is that list, of length exactly \<open>H\<close>. The instants
  are strictly increasing, consecutive ones are exactly \<open>D\<close> apart, and the first is
  one step after \<open>T\<close>.
\<close>

theorem future_timestamps_from_base:
  "(0 \<le> T \<and> T + timedelta_days (int number_of_future_forecasts) \<le> datetime_max \<longrightarrow>
      generate_future_timestamps fmt T =
        Inr (map (\<lambda>i. fmt (T + timedelta_days (int i))) [1..<number_of_future_forecasts + 1])) \<and>
   (\<forall>fts. generate_future_timestamps fmt T = Inr fts \<longrightarrow>
      fts = map (\<lambda>i. fmt (T + timedelta_days (int i))) [1..<number_of_future_forecasts + 1] \<and>
      length fts = number_of_future_forecasts) \<and>
   sorted_wrt (<) (map (\<lambda>i. T + timedelta_days (int i)) [1..<number_of_future_forecasts + 1]) \<and>
   (\<forall>i. timedelta_days (int i) = int i * timedelta_days 1) \<and>
   (\<forall>i. (T + timedelta_days (int (Suc i))) - (T + timedelta_days (int i)) = timedelta_days 1) \<and>
   T + timedelta_days (int 1) - T = timedelta_days 1 \<and>
   0 < timedelta_days 1"
proof -
  have a: "0 \<le> T \<and> T + timedelta_days (int number_of_future_forecasts) \<le> datetime_max \<longrightarrow>
      generate_future_timestamps fmt T =
        Inr (map (\<lambda>i. fmt (T + timedelta_days (int i))) [1..<number_of_future_forecasts + 1])"
  proof
    assume h: "0 \<le> T \<and> T + timedelta_days (int number_of_future_forecasts) \<le> datetime_max"
    have "\<forall>i \<in> set [1..<number_of_future_forecasts + 1].
            0 \<le> T + timedelta_days (int i) \<and> T + timedelta_days (int i) \<le> datetime_max"
    proof
      fix i assume "i \<in> set [1..<number_of_future_forecasts + 1]"
      then have "int i \<le> int number_of_future_forecasts" by auto
      then have "timedelta_days (int i) \<le> timedelta_days (int number_of_future_forecasts)"
        by (rule timedelta_days_mono)
      moreover have "0 \<le> timedelta_days (int i)" by (simp add: timedelta_days_def)
      ultimately show "0 \<le> T + timedelta_days (int i) \<and> T + timedelta_days (int i) \<le> datetime_max"
        using h by linarith
    qed
    then show "generate_future_timestamps fmt T =
        Inr (map (\<lambda>i. fmt (T + timedelta_days (int i))) [1..<number_of_future_forecasts + 1])"
      unfolding generate_future_timestamps_def by (rule future_timestamps_loop_in_range)
  qed
  have b: "\<forall>fts. generate_future_timestamps fmt T = Inr fts \<longrightarrow>
      fts = map (\<lambda>i. fmt (T + timedelta_days (int i))) [1..<number_of_future_forecasts + 1] \<and>
      length fts = number_of_future_forecasts"
    unfolding generate_future_timestamps_def
    by (auto dest: future_timestamps_loop_result)
  have c: "sorted_wrt (<) (map (\<lambda>i. T + timedelta_days (int i)) [1..<number_of_future_forecasts + 1])"
    by (rule instants_increasing)
  have d: "\<forall>i. timedelta_days (int i) = int i * timedelta_days 1"
    by (simp add: timedelta_days_def)
  have e: "\<forall>i. (T + timedelta_days (int (Suc i))) - (T + timedelta_days (int i)) = timedelta_days 1"
    by (simp add: timedelta_days_def algebra_simps)
  have f: "T + timedelta_days (int 1) - T = timedelta_days 1" by simp
  have g: "0 < timedelta_days 1" by (simp add: timedelta_days_def)
  show ?thesis
    by (intro conjI) (rule a b c d e f g)+
qed

lemma upt_1_11: "[1..<number_of_future_forecasts + 1] = [1, 2, 3, 4, 5, 6, 7, 8, 9, 10]"
  unfolding number_of_future_forecasts_def by code_simp

theorem future_timestamps_from_base_witness:
  "(0::int) \<le> 0 \<and> 0 + timedelta_days (int number_of_future_forecasts) \<le> datetime_max \<and>
   generate_future_timestamps (\<lambda>t. str_nat (nat t)) 0 =
     Inr [''86400000000'', ''172800000000'', ''259200000000'', ''345600000000'',
          ''432000000000'', ''518400000000'', ''604800000000'', ''691200000000'',
          ''777600000000'', ''864000000000'']"
proof -
  have h: "(0::int) \<le> 0 \<and> 0 + timedelta_days (int number_of_future_forecasts) \<le> datetime_max"
    by (simp add: timedelta_days_def number_of_future_forecasts_def datetime_max_def)
  have g: "generate_future_timestamps (\<lambda>t. str_nat (nat t)) 0 =
          Inr (map (\<lambda>i. str_nat (nat (0 + timedelta_days (int i))))
                 [1..<number_of_future_forecasts + 1])"
    using future_timestamps_from_base [of 0 "\<lambda>t. str_nat (nat t)", THEN conjunct1] h
    by (rule mp)
  have e: "map (\<lambda>i. str_nat (nat (0 + timedelta_days (int i)))) [1..<number_of_future_forecasts + 1] =
     [''86400000000'', ''172800000000'', ''259200000000'', ''345600000000'',
      ''432000000000'', ''518400000000'', ''604800000000'', ''691200000000'',
      ''777600000000'', ''864000000000'']"
    unfolding upt_1_11
    by (simp add: timedelta_days_def str_nat.simps digit_char_def)
  from h g show ?thesis unfolding e by (intro conjI) blast+
qed

section \<open>The threshold classifier\<close>

lemma float_limit_large: "1000 < float_limit"
proof -
  have "(2::real) ^ 1024 = 2 ^ 970 * 2 ^ 54"
    by (simp add: power_add [symmetric])
  then have "float_limit = 2 ^ 970 * (2 ^ 54 - 1)"
    by (simp add: float_limit_def algebra_simps)
  moreover have "(1::real) \<le> 2 ^ 970" by simp
  moreover have "(1000::real) < 2 ^ 54 - 1" by simp
  ultimately show ?thesis
    by (metis less_le_trans mult_le_cancel_right1 not_le order_less_imp_le zero_less_one
          less_trans zero_less_numeral mult.commute)
qed

lemma small_float_valued: "\<bar>x\<bar> \<le> 1000 \<Longrightarrow> float_valued (PNum x)"
  using float_limit_large by (simp add: float_valued_def)

lemma violations_loop_numbers:
  "\<forall>ob \<in> set obs. float_valued (snd ob) \<Longrightarrow>
   violations_loop th f obs ev wv =
     Some (ev @ map (error_entry th f) (filter (\<lambda>ob. error_breach th (snd ob)) obs),
           wv @ map (warning_entry th f) (filter (\<lambda>ob. warning_breach th (snd ob)) obs))"
proof (induction obs arbitrary: ev wv)
  case Nil
  then show ?case by simp
next
  case (Cons ob obs)
  obtain value_type v where o: "ob = (value_type, v)" by (cases ob)
  from Cons.prems have n: "is_number v" "\<not> overflows_float v"
    and rest: "\<forall>ob \<in> set obs. float_valued (snd ob)"
    by (simp_all add: o float_valued_def)
  show ?case
    unfolding o
    by (simp add: n Cons.IH [OF rest] format_violation_def error_breach_def
                  warning_breach_def error_entry_def warning_entry_def)
qed




lemma check_thresholds_with_numbers:
  assumes "\<forall>ob \<in> set (values_to_check pd). float_valued (snd ob)"
  shows "check_thresholds_with th f pd =
    (if filter (\<lambda>ob. error_breach th (snd ob)) (values_to_check pd) \<noteq> [] then
       (''error'', ''ERROR THRESHOLD EXCEEDED!'' #
          shown_violations (map (error_entry th f)
            (filter (\<lambda>ob. error_breach th (snd ob)) (values_to_check pd))))
     else if filter (\<lambda>ob. warning_breach th (snd ob)) (values_to_check pd) \<noteq> [] then
       (''warning'', ''WARNING THRESHOLD EXCEEDED!'' #
          shown_violations (map (warning_entry th f)
            (filter (\<lambda>ob. warning_breach th (snd ob)) (values_to_check pd))))
     else (''normal'', []))"
  unfolding check_thresholds_with_def violations_loop_numbers [OF assms]
  by simp


lemma status_numbers:
  assumes "\<forall>ob \<in> set (values_to_check pd). float_valued (snd ob)"
  shows "fst (check_thresholds_with th f pd) =
    (if \<exists>ob \<in> set (values_to_check pd). error_breach th (snd ob) then ''error''
     else if \<exists>ob \<in> set (values_to_check pd). warning_breach th (snd ob) then ''warning''
     else ''normal'')"
  unfolding check_thresholds_with_numbers [OF assms]
  by (simp add: filter_empty_conv)

lemma value_severity_cases:
  "value_severity th v =
     (if error_breach th v then ''error''
      else if warning_breach th v then ''warning'' else ''normal'')"
  by (simp add: value_severity_def error_breach_def warning_breach_def)





lemma module_breaches:
  "error_breach module_thresholds v \<longleftrightarrow> py_gt v 30 \<or> py_lt v 10"
  "warning_breach module_thresholds v \<longleftrightarrow>
     \<not> (py_gt v 30 \<or> py_lt v 10) \<and> (py_gt v 25 \<or> py_lt v 18)"
  by (simp_all add: error_breach_def warning_breach_def module_thresholds_def
        LOW_WARNING_THRESHOLD_def LOW_ERROR_THRESHOLD_def HIGH_WARNING_THRESHOLD_def
        HIGH_ERROR_THRESHOLD_def)

lemma module_thresholds_values:
  "low_error module_thresholds = 10" "low_warning module_thresholds = 18"
  "high_warning module_thresholds = 25" "high_error module_thresholds = 30"
  by (simp_all add: module_thresholds_def LOW_WARNING_THRESHOLD_def LOW_ERROR_THRESHOLD_def
        HIGH_WARNING_THRESHOLD_def HIGH_ERROR_THRESHOLD_def)

lemma single_sensor_values:
  "values_to_check (initial_plot_data\<lparr>sensor_data := [v]\<rparr>) = [(''Current Sensor'', v)]"
  by (simp add: values_to_check_def initial_plot_data_def)

lemma single_sensor_check:
  "float_valued v \<Longrightarrow>
   check_thresholds f (initial_plot_data\<lparr>sensor_data := [v]\<rparr>) =
     (if py_gt v 30 \<or> py_lt v 10 then
        (''error'', [''ERROR THRESHOLD EXCEEDED!'',
                     error_entry module_thresholds f (''Current Sensor'', v)])
      else if py_gt v 25 \<or> py_lt v 18 then
        (''warning'', [''WARNING THRESHOLD EXCEEDED!'',
                       warning_entry module_thresholds f (''Current Sensor'', v)])
      else (''normal'', []))"
  unfolding check_thresholds_def
  by (subst check_thresholds_with_numbers)
     (simp_all add: single_sensor_values module_breaches shown_violations_def)






text \<open>
  Claim C10. Every comparison is strict: with the thresholds (10, 18, 25, 30) a value
  equal to 25 or to 18 is normal, and a value equal to 30 or to 10 is a warning, not an
  error.
\<close>

theorem boundary_values_do_not_breach:
  "check_thresholds f (initial_plot_data\<lparr>sensor_data := [PNum 25.0]\<rparr>) = (''normal'', []) \<and>
   check_thresholds f (initial_plot_data\<lparr>sensor_data := [PNum 18.0]\<rparr>) = (''normal'', []) \<and>
   check_thresholds f (initial_plot_data\<lparr>sensor_data := [PNum 30.0]\<rparr>) =
     (''warning'', [''WARNING THRESHOLD EXCEEDED!'',
                    violation_text f ''Current Sensor'' (PNum 30.0) ''>'' 25.0]) \<and>
   check_thresholds f (initial_plot_data\<lparr>sensor_data := [PNum 10.0]\<rparr>) =
     (''warning'', [''WARNING THRESHOLD EXCEEDED!'',
                    violation_text f ''Current Sensor'' (PNum 10.0) ''<'' 18.0]) \<and>
   check_thresholds f (initial_plot_data\<lparr>forecasts := [PNum 25.0, PNum 18.0]\<rparr>) =
     (''normal'', []) \<and>
   \<not> py_gt (PNum t) t \<and> \<not> py_lt (PNum t) t \<and>
   value_severity module_thresholds (PNum 25.0) = ''normal'' \<and>
   value_severity module_thresholds (PNum 18.0) = ''normal'' \<and>
   value_severity module_thresholds (PNum 30.0) = ''warning'' \<and>
   value_severity module_thresholds (PNum 10.0) = ''warning''"
proof -
  have s: "check_thresholds f (initial_plot_data\<lparr>sensor_data := [PNum 25.0]\<rparr>) = (''normal'', [])"
    "check_thresholds f (initial_plot_data\<lparr>sensor_data := [PNum 18.0]\<rparr>) = (''normal'', [])"
    "check_thresholds f (initial_plot_data\<lparr>sensor_data := [PNum 30.0]\<rparr>) =
     (''warning'', [''WARNING THRESHOLD EXCEEDED!'',
                    violation_text f ''Current Sensor'' (PNum 30.0) ''>'' 25.0])"
    "check_thresholds f (initial_plot_data\<lparr>sensor_data := [PNum 10.0]\<rparr>) =
     (''warning'', [''WARNING THRESHOLD EXCEEDED!'',
                    violation_text f ''Current Sensor'' (PNum 10.0) ''<'' 18.0])"
    by (simp_all add: single_sensor_check small_float_valued error_entry_def
          warning_entry_def module_thresholds_values)
  have fv: "\<And>a b. values_to_check (initial_plot_data\<lparr>forecasts := [a, b]\<rparr>) =
      [(''Forecast'', a), (''Forecast'', b)]"
    by (simp add: values_to_check_def initial_plot_data_def)
  have fc: "check_thresholds f (initial_plot_data\<lparr>forecasts := [PNum 25.0, PNum 18.0]\<rparr>) =
     (''normal'', [])"
    unfolding check_thresholds_def
    by (subst check_thresholds_with_numbers)
       (simp_all add: fv module_breaches small_float_valued)
  have c: "\<not> py_gt (PNum t) t" "\<not> py_lt (PNum t) t"
    by simp_all
  have v: "value_severity module_thresholds (PNum 25.0) = ''normal''"
    "value_severity module_thresholds (PNum 18.0) = ''normal''"
    "value_severity module_thresholds (PNum 30.0) = ''warning''"
    "value_severity module_thresholds (PNum 10.0) = ''warning''"
    by (simp_all add: value_severity_cases module_breaches)
  show ?thesis
    by (intro conjI) (rule s fc c v)+
qed











section \<open>The alert state\<close>

lemma update_background_color_idem:
  "update_background_color (update_background_color p s) s = update_background_color p s"
  by (simp add: update_background_color_def Let_def)

lemma update_background_color_fields:
  "alert_text_text (update_background_color p s) = alert_text_text p"
  "alert_text_color (update_background_color p s) = alert_text_color p"
  "alert_text_bbox_facecolor (update_background_color p s) = alert_text_bbox_facecolor p"
  "alert_text_visible (update_background_color p s) = alert_text_visible p"
  by (simp_all add: update_background_color_def Let_def)

lemma update_alert_text_fields:
  "current_background_color (update_alert_text p s ms) = current_background_color p"
  "fig_facecolor (update_alert_text p s ms) = fig_facecolor p"
  "ax_facecolor (update_alert_text p s ms) = ax_facecolor p"
  by (simp_all add: update_alert_text_def)

lemma update_background_color_after_text:
  "update_background_color (update_alert_text p s ms) s' =
     update_alert_text (update_background_color p s') s ms"
  by (simp add: update_background_color_def update_alert_text_def Let_def)

lemma update_alert_text_idem:
  "update_alert_text (update_alert_text p s ms) s ms = update_alert_text p s ms"
  by (simp add: update_alert_text_def)

lemma update_alerts_idem: "update_alerts (update_alerts p a) a = update_alerts p a"
proof (cases a)
  case (Pair s ms)
  show ?thesis
    unfolding Pair update_alerts_def prod.case
    by (simp only: update_background_color_after_text update_background_color_idem
          update_alert_text_idem)
qed

lemma update_alerts_color:
  "current_background_color (update_alerts p a) = status_color (fst a)"
  by (cases a)
     (simp add: update_alerts_def update_alert_text_fields update_background_color_def
        status_color_def Let_def)

text \<open>
  Claim C5. Applying the same assessment twice leaves the alert state after the second
  application exactly as it was after the first. Hence the state held after an
  assessment \<open>a\<close> changes under an assessment \<open>b\<close> only when \<open>b\<close> differs from \<open>a\<close> in its
  status or in its messages. An assessment does change the state when its colour is
  not the one held, and when it has messages whose text is not the one held.
\<close>

theorem alert_state_changes_only_on_new_assessment:
  "update_alerts (update_alerts p a) a = update_alerts p a \<and>
   (update_alerts (update_alerts p a) b \<noteq> update_alerts p a \<longrightarrow>
      fst b \<noteq> fst a \<or> snd b \<noteq> snd a) \<and>
   (status_color (fst a) \<noteq> current_background_color p \<longrightarrow> update_alerts p a \<noteq> p) \<and>
   (snd a \<noteq> [] \<and> join_lines (snd a) \<noteq> alert_text_text p \<longrightarrow> update_alerts p a \<noteq> p)"
proof (intro conjI impI)
  show i: "update_alerts (update_alerts p a) a = update_alerts p a"
    by (rule update_alerts_idem)
  show "fst b \<noteq> fst a \<or> snd b \<noteq> snd a"
    if "update_alerts (update_alerts p a) b \<noteq> update_alerts p a"
  proof (rule ccontr)
    assume "\<not> (fst b \<noteq> fst a \<or> snd b \<noteq> snd a)"
    then have "b = a" by (simp add: prod_eq_iff)
    with that i show False by simp
  qed
  show "update_alerts p a \<noteq> p" if "status_color (fst a) \<noteq> current_background_color p"
  proof
    assume "update_alerts p a = p"
    then have "current_background_color (update_alerts p a) = current_background_color p"
      by simp
    with that show False by (simp add: update_alerts_color)
  qed
  show "update_alerts p a \<noteq> p"
    if "snd a \<noteq> [] \<and> join_lines (snd a) \<noteq> alert_text_text p"
  proof
    assume e: "update_alerts p a = p"
    have "alert_text_text (update_alerts p a) = join_lines (snd a)"
      using that by (cases a) (simp add: update_alerts_def update_alert_text_def)
    with e that show False by simp
  qed
qed

theorem alert_state_changes_only_on_new_assessment_witness:
  "update_alerts (update_alerts initial_plotter (''error'', [''ERROR THRESHOLD EXCEEDED!'']))
       (''normal'', []) \<noteq>
     update_alerts initial_plotter (''error'', [''ERROR THRESHOLD EXCEEDED!'']) \<and>
   fst (''normal'', []::string list) \<noteq> fst (''error'', [''ERROR THRESHOLD EXCEEDED!'']) \<and>
   status_color (fst (''error'', [''ERROR THRESHOLD EXCEEDED!''])) \<noteq>
     current_background_color initial_plotter \<and>
   update_alerts initial_plotter (''error'', [''ERROR THRESHOLD EXCEEDED!'']) \<noteq> initial_plotter \<and>
   update_alerts (update_alerts initial_plotter (''error'', [''ERROR THRESHOLD EXCEEDED!'']))
       (''error'', [''ERROR THRESHOLD EXCEEDED!'']) =
     update_alerts initial_plotter (''error'', [''ERROR THRESHOLD EXCEEDED!''])"
proof -
  let ?a = "(''error'', [''ERROR THRESHOLD EXCEEDED!''])"
  let ?b = "(''normal'', []::string list)"
  note t = alert_state_changes_only_on_new_assessment [of initial_plotter ?a ?b]
  have c: "status_color (fst ?a) \<noteq> current_background_color initial_plotter"
    by (simp add: status_color_def color_map_def initial_plotter_def)
  have n: "update_alerts initial_plotter ?a \<noteq> initial_plotter"
    using t c by blast
  have i: "update_alerts (update_alerts initial_plotter ?a) ?a = update_alerts initial_plotter ?a"
    using t by blast
  have "alert_text_visible (update_alerts (update_alerts initial_plotter ?a) ?b) \<noteq>
        alert_text_visible (update_alerts initial_plotter ?a)"
    by (simp add: update_alerts_def update_alert_text_def update_background_color_def Let_def)
  then have d: "update_alerts (update_alerts initial_plotter ?a) ?b \<noteq>
      update_alerts initial_plotter ?a"
    by metis
  have f: "fst ?b \<noteq> fst ?a" by simp
  from d f c n i show ?thesis by (intro conjI)
qed

section \<open>The threshold constants\<close>

text \<open>
  Claim C6, as stated, fails. Nothing in the module compares the four constants with
  each other: with the constants set to (lowError, lowWarning, highWarning, highError) =
  (30, 18, 25, 10), which are not in order, \<^verbatim>\<open>check_thresholds\<close> runs and reports an
  error for the reading 20.
\<close>

theorem unordered_thresholds_are_accepted:
  "\<not> thresholds_ordered
       \<lparr> low_warning = 18, low_error = 30, high_warning = 25, high_error = 10 \<rparr> \<and>
   check_thresholds_with
       \<lparr> low_warning = 18, low_error = 30, high_warning = 25, high_error = 10 \<rparr>
       whole_formatter (initial_plot_data\<lparr>sensor_data := [PNum 20]\<rparr>) =
     (''error'', [''ERROR THRESHOLD EXCEEDED!'',
                  ''Current Sensor: 20.00'' @ unit_suffix @ '' > 10.0'' @ unit_suffix])"
proof (intro conjI)
  show "\<not> thresholds_ordered
       \<lparr> low_warning = 18, low_error = 30, high_warning = 25, high_error = 10 \<rparr>"
    by (simp add: thresholds_ordered_def)
  show "check_thresholds_with
       \<lparr> low_warning = 18, low_error = 30, high_warning = 25, high_error = 10 \<rparr>
       whole_formatter (initial_plot_data\<lparr>sensor_data := [PNum 20]\<rparr>) =
     (''error'', [''ERROR THRESHOLD EXCEEDED!'',
                  ''Current Sensor: 20.00'' @ unit_suffix @ '' > 10.0'' @ unit_suffix])"
    by (subst check_thresholds_with_numbers)
       (simp_all add: single_sensor_values small_float_valued error_breach_def
          shown_violations_def error_entry_def violation_text_def whole_formatter_def
          str_nat.simps digit_char_def)
qed

text \<open>
  Claim C6, amended. The four constants are fixed in the module at (10, 18, 25, 30),
  which are in order, and \<^verbatim>\<open>check_thresholds\<close> is the classification at these values. The
  classification itself compares the observations with whatever the constants are, in
  order or not: for observations that are floats, the status is \<open>error\<close> exactly when
  some observation is above \<open>high_error\<close> or below \<open>low_error\<close>.
\<close>

theorem thresholds_are_fixed_and_unchecked:
  "thresholds_ordered module_thresholds \<and>
   low_error module_thresholds = 10 \<and> low_warning module_thresholds = 18 \<and>
   high_warning module_thresholds = 25 \<and> high_error module_thresholds = 30 \<and>
   check_thresholds f pd = check_thresholds_with module_thresholds f pd \<and>
   ((\<forall>ob \<in> set (values_to_check pd). float_valued (snd ob)) \<longrightarrow>
      (fst (check_thresholds_with th f pd) = ''error'' \<longleftrightarrow>
         (\<exists>ob \<in> set (values_to_check pd).
            py_gt (snd ob) (high_error th) \<or> py_lt (snd ob) (low_error th))))"
proof (intro conjI impI)
  show "thresholds_ordered module_thresholds"
    by (simp add: thresholds_ordered_def module_thresholds_values)
  show "low_error module_thresholds = 10" "low_warning module_thresholds = 18"
    "high_warning module_thresholds = 25" "high_error module_thresholds = 30"
    by (rule module_thresholds_values)+
  show "check_thresholds f pd = check_thresholds_with module_thresholds f pd"
    by (simp add: check_thresholds_def)
  show "fst (check_thresholds_with th f pd) = ''error'' \<longleftrightarrow>
         (\<exists>ob \<in> set (values_to_check pd).
            py_gt (snd ob) (high_error th) \<or> py_lt (snd ob) (low_error th))"
    if "\<forall>ob \<in> set (values_to_check pd). float_valued (snd ob)"
    unfolding status_numbers [OF that] by (simp add: error_breach_def)
qed

theorem thresholds_are_fixed_and_unchecked_witness:
  "list_all (\<lambda>ob. float_valued (snd ob))
     (values_to_check (initial_plot_data\<lparr>sensor_data := [PNum 20]\<rparr>)) \<and>
   fst (check_thresholds_with
          \<lparr> low_warning = 18, low_error = 30, high_warning = 25, high_error = 10 \<rparr>
          whole_formatter (initial_plot_data\<lparr>sensor_data := [PNum 20]\<rparr>)) = ''error'' \<and>
   fst (check_thresholds whole_formatter (initial_plot_data\<lparr>sensor_data := [PNum 20]\<rparr>))
     = ''normal''"
proof -
  let ?pd = "initial_plot_data\<lparr>sensor_data := [PNum 20]\<rparr>"
  let ?th = "\<lparr> low_warning = 18, low_error = 30, high_warning = 25, high_error = 10 \<rparr>"
  note t = thresholds_are_fixed_and_unchecked [of whole_formatter ?pd ?th]
  have h: "\<forall>ob \<in> set (values_to_check ?pd). float_valued (snd ob)"
    by (simp add: single_sensor_values small_float_valued)
  have "fst (check_thresholds_with ?th whole_formatter ?pd) = ''error'' \<longleftrightarrow>
         (\<exists>ob \<in> set (values_to_check ?pd).
            py_gt (snd ob) (high_error ?th) \<or> py_lt (snd ob) (low_error ?th))"
    using t h by blast
  then have a: "fst (check_thresholds_with ?th whole_formatter ?pd) = ''error''"
    by (simp add: single_sensor_values)
  have b: "fst (check_thresholds whole_formatter ?pd) = ''normal''"
    by (simp add: single_sensor_check small_float_valued)
  have c: "list_all (\<lambda>ob. float_valued (snd ob)) (values_to_check ?pd)"
    by (simp add: single_sensor_values small_float_valued)
  from c a b show ?thesis by (intro conjI)
qed

section \<open>Payloads that are not readings\<close>

lemma on_message_undecodable:
  "on_message c st None = (st, ErrorPrinted DecodeError)"
  by (simp add: on_message_def)

lemma on_message_not_a_dict:
  "\<forall>d. v \<noteq> PDict d \<Longrightarrow> on_message c st (Some v) = (st, ErrorPrinted AttributeError)"
  by (cases v) (simp_all add: on_message_def)

text \<open>
  Claim C7. A payload that cannot be decoded, or that decodes to something other than an
  object, leaves both deques unchanged and only prints the error. A payload that decodes
  to an object with no temperature, here \<^verbatim>\<open>{"sensor_id": 1}\<close>, is not dropped: the
  forecasting callback appends \<^verbatim>\<open>None\<close> for the temperature and for the timestamp. The
  plotting script leaves its deques unchanged on the same payload.
\<close>

theorem missing_temperature_reaches_window:
  "on_message c initial_broker_state (Some (PDict [(''sensor_id'', PNum 1)])) =
     (\<lparr> temperatures = [PNone], timestamps = [PNone] \<rparr>, NotEnoughData) \<and>
   listener_on_message initial_listener_state (Some (PDict [(''sensor_id'', PNum 1)])) =
     initial_listener_state \<and>
   on_message c st None = (st, ErrorPrinted DecodeError) \<and>
   on_message c st (Some (PList [])) = (st, ErrorPrinted AttributeError)"
proof (intro conjI)
  show "on_message c initial_broker_state (Some (PDict [(''sensor_id'', PNum 1)])) =
     (\<lparr> temperatures = [PNone], timestamps = [PNone] \<rparr>, NotEnoughData)"
    by (simp add: on_message_def initial_broker_state_def dict_get_def deque_append_def
          lookback_def Let_def)
  show "listener_on_message initial_listener_state (Some (PDict [(''sensor_id'', PNum 1)])) =
     initial_listener_state"
    by (simp add: listener_on_message_def dict_get_def Let_def)
  show "on_message c st None = (st, ErrorPrinted DecodeError)"
    by (rule on_message_undecodable)
  show "on_message c st (Some (PList [])) = (st, ErrorPrinted AttributeError)"
    by (simp add: on_message_def)
qed

end
